theory Spec2Isabelle
  imports Main "HOL-Library.Char_ord" "HOL-Library.List_Lexorder"
begin

section \<open>Python values\<close>

text \<open>
  The readers hand the normalizer plain Python dictionaries obtained from \<open>json.loads\<close>.
  A value is therefore one of the JSON shapes. A \<open>dict\<close> is an association list in
  insertion order (its keys are strings, as JSON gives them). Floating-point numbers are
  not part of the model; text is a list of 8-bit characters and is read as ASCII.
\<close>

datatype json =
    JNull
  | JBool bool
  | JInt int
  | JStr string
  | JList "json list"
  | JDict "(string \<times> json) list"

datatype py_exception =
    AttributeError | TypeError | KeyError | ValueError | IndexError
  | JSONDecodeError | BotoCoreError

definition py_bind :: "'e + 'a \<Rightarrow> ('a \<Rightarrow> 'e + 'b) \<Rightarrow> 'e + 'b" where
  "py_bind r f = (case r of Inl e \<Rightarrow> Inl e | Inr v \<Rightarrow> f v)"

fun py_mapM :: "('a \<Rightarrow> 'e + 'b) \<Rightarrow> 'a list \<Rightarrow> 'e + 'b list" where
  "py_mapM f [] = Inr []"
| "py_mapM f (x # xs) =
     (case f x of
        Inl e \<Rightarrow> Inl e
      | Inr y \<Rightarrow> (case py_mapM f xs of Inl e \<Rightarrow> Inl e | Inr ys \<Rightarrow> Inr (y # ys)))"

text \<open>Truth value of an object, as \<open>if x:\<close>, \<open>not x\<close> and \<open>x or y\<close> test it.\<close>

fun truthy :: "json \<Rightarrow> bool" where
  "truthy JNull = False"
| "truthy (JBool b) = b"
| "truthy (JInt n) = (n \<noteq> 0)"
| "truthy (JStr s) = (s \<noteq> [])"
| "truthy (JList xs) = (xs \<noteq> [])"
| "truthy (JDict d) = (d \<noteq> [])"

definition py_or :: "json \<Rightarrow> json \<Rightarrow> json" where
  "py_or a b = (if truthy a then a else b)"

text \<open>\<open>obj.get(key, default)\<close>: only a dict has the method.\<close>

fun py_get :: "json \<Rightarrow> string \<Rightarrow> json \<Rightarrow> py_exception + json" where
  "py_get (JDict d) k dflt = Inr (case map_of d k of Some v \<Rightarrow> v | None \<Rightarrow> dflt)"
| "py_get _ k dflt = Inl AttributeError"

text \<open>\<open>obj[key]\<close> with a string key.\<close>

fun py_item :: "json \<Rightarrow> string \<Rightarrow> py_exception + json" where
  "py_item (JDict d) k = (case map_of d k of Some v \<Rightarrow> Inr v | None \<Rightarrow> Inl KeyError)"
| "py_item _ k = Inl TypeError"

text \<open>\<open>obj[key] = value\<close> with a string key: a present key keeps its position.\<close>

fun dict_update :: "string \<Rightarrow> json \<Rightarrow> (string \<times> json) list \<Rightarrow> (string \<times> json) list" where
  "dict_update k v [] = [(k, v)]"
| "dict_update k v (p # ps) = (if fst p = k then (k, v) # ps else p # dict_update k v ps)"

fun py_setitem :: "json \<Rightarrow> string \<Rightarrow> json \<Rightarrow> py_exception + json" where
  "py_setitem (JDict d) k v = Inr (JDict (dict_update k v d))"
| "py_setitem _ k v = Inl TypeError"

text \<open>\<open>key in obj\<close> with a string key, on a dict.\<close>

definition has_key :: "(string \<times> json) list \<Rightarrow> string \<Rightarrow> bool" where
  "has_key d k = (map_of d k \<noteq> None)"

text \<open>\<open>len(obj)\<close> and \<open>for x in obj\<close>.\<close>

fun py_len :: "json \<Rightarrow> py_exception + nat" where
  "py_len (JStr s) = Inr (length s)"
| "py_len (JList xs) = Inr (length xs)"
| "py_len (JDict d) = Inr (length d)"
| "py_len _ = Inl TypeError"

fun py_iter :: "json \<Rightarrow> py_exception + json list" where
  "py_iter (JList xs) = Inr xs"
| "py_iter (JDict d) = Inr (map (\<lambda>p. JStr (fst p)) d)"
| "py_iter (JStr s) = Inr (map (\<lambda>c. JStr [c]) s)"
| "py_iter _ = Inl TypeError"


fun is_list :: "json \<Rightarrow> bool" where
  "is_list (JList xs) = True"
| "is_list _ = False"

subsection \<open>Text\<close>

definition lower_char :: "char \<Rightarrow> char" where
  "lower_char c =
     (case map_of (zip ''ABCDEFGHIJKLMNOPQRSTUVWXYZ'' ''abcdefghijklmnopqrstuvwxyz'') c of
        Some l \<Rightarrow> l
      | None \<Rightarrow> c)"

definition lower :: "string \<Rightarrow> string" where
  "lower s = map lower_char s"

definition startswith :: "string \<Rightarrow> string \<Rightarrow> bool" where
  "startswith s p = (take (length p) s = p)"

definition endswith :: "string \<Rightarrow> string \<Rightarrow> bool" where
  "endswith s p = (length p \<le> length s \<and> drop (length s - length p) s = p)"

text \<open>\<open>s.replace(old, new)\<close> for a non-empty \<open>old\<close>: leftmost occurrences, not overlapping.\<close>

function replace :: "string \<Rightarrow> string \<Rightarrow> string \<Rightarrow> string" where
  "replace old new [] = []"
| "replace old new (c # cs) =
     (if old \<noteq> [] \<and> startswith (c # cs) old
      then new @ replace old new (drop (length old) (c # cs))
      else c # replace old new cs)"
  by pat_completeness auto
termination
  by (relation "measure (\<lambda>(old, new, s). length s)") auto

text \<open>\<open>s.split(sep)\<close> for a one-character separator, and \<open>s.split(sep, 1)\<close>.\<close>

fun split :: "char \<Rightarrow> string \<Rightarrow> string list" where
  "split sep [] = [[]]"
| "split sep (c # cs) =
     (if c = sep then [] # split sep cs
      else (case split sep cs of
              [] \<Rightarrow> [[c]]
            | p # ps \<Rightarrow> (c # p) # ps))"

definition split1 :: "char \<Rightarrow> string \<Rightarrow> string list" where
  "split1 sep s =
     (if sep \<in> set s
      then [takeWhile (\<lambda>c. c \<noteq> sep) s, tl (dropWhile (\<lambda>c. c \<noteq> sep) s)]
      else [s])"

definition rstrip_char :: "char \<Rightarrow> string \<Rightarrow> string" where
  "rstrip_char ch s = rev (dropWhile (\<lambda>c. c = ch) (rev s))"

text \<open>\<open>str(n)\<close> for an integer.\<close>

fun string_of_nat :: "nat \<Rightarrow> string" where
  "string_of_nat n =
     (if n < 10 then [char_of (48 + n)]
      else string_of_nat (n div 10) @ [char_of (48 + n mod 10)])"

declare string_of_nat.simps [simp del]

definition string_of_int :: "int \<Rightarrow> string" where
  "string_of_int i = (if i < 0 then CHR ''-'' # string_of_nat (nat (- i)) else string_of_nat (nat i))"

text \<open>
  \<open>repr(s)\<close> of a string: single quotes unless the text has a single quote and no double
  quote; the quote, the backslash, newline, carriage return and tab are escaped. Other
  characters are taken to be printable.
\<close>

definition repr_char :: "char \<Rightarrow> char \<Rightarrow> string" where
  "repr_char q c =
     (if c = q \<or> c = CHR 0x5C then [CHR 0x5C, c]
      else if c = CHR 0x0A then [CHR 0x5C, CHR ''n'']
      else if c = CHR 0x0D then [CHR 0x5C, CHR ''r'']
      else if c = CHR 0x09 then [CHR 0x5C, CHR ''t'']
      else [c])"

definition repr_str :: "string \<Rightarrow> string" where
  "repr_str s =
     (let q = (if CHR 0x27 \<in> set s \<and> CHR 0x22 \<notin> set s then CHR 0x22 else CHR 0x27)
      in q # concat (map (repr_char q) s) @ [q])"

definition join :: "string \<Rightarrow> string list \<Rightarrow> string" where
  "join sep xs = (case xs of [] \<Rightarrow> [] | y # ys \<Rightarrow> y @ concat (map (\<lambda>z. sep @ z) ys))"

fun py_repr :: "json \<Rightarrow> string" where
  "py_repr JNull = ''None''"
| "py_repr (JBool b) = (if b then ''True'' else ''False'')"
| "py_repr (JInt i) = string_of_int i"
| "py_repr (JStr s) = repr_str s"
| "py_repr (JList xs) = ''['' @ join '', '' (map py_repr xs) @ '']''"
| "py_repr (JDict d) =
     ''{'' @ join '', '' (map (\<lambda>p. repr_str (fst p) @ '': '' @ py_repr (snd p)) d) @ ''}''"

fun py_str :: "json \<Rightarrow> string" where
  "py_str (JStr s) = s"
| "py_str v = py_repr v"

section \<open>The normalizer (\<open>src/normalizer/metadata_normalizer.py\<close>)\<close>

text \<open>
  \<open>datetime.now()\<close> is the only thing the normalizer and the store read from their
  environment; every function that calls it takes the reading as an argument.
\<close>

type_synonym datetime = int

text \<open>
  The \<open>TableMetadata\<close> and \<open>ColumnMetadata\<close> objects as the normalizer builds them. The
  dataclasses do not check their annotations, so a field that is copied from the raw
  record holds whatever value the raw record had.
\<close>

record normalized_column =
  nc_name :: json
  nc_data_type :: string
  nc_nullable :: json
  nc_comment :: json

record normalized_metadata =
  nm_table_name :: json
  nm_format :: string
  nm_location :: json
  nm_columns :: "normalized_column list"
  nm_partitions :: json
  nm_properties :: json
  nm_supports_time_travel :: json
  nm_created_at :: "datetime option"
  nm_updated_at :: "datetime option"
  nm_num_files :: "int option"
  nm_size_bytes :: "int option"
  nm_row_count :: "int option"

datatype normalization_cause = UnsupportedFormat string | Raised py_exception

definition ICEBERG_TYPE_MAP :: "(string \<times> string) list" where
  "ICEBERG_TYPE_MAP =
    [(''boolean'', ''BOOLEAN''), (''int'', ''INTEGER''), (''long'', ''BIGINT''),
     (''float'', ''FLOAT''), (''double'', ''DOUBLE''), (''decimal'', ''DECIMAL''),
     (''date'', ''DATE''), (''time'', ''TIME''), (''timestamp'', ''TIMESTAMP''),
     (''timestamptz'', ''TIMESTAMP WITH TIME ZONE''), (''string'', ''VARCHAR''),
     (''uuid'', ''UUID''), (''fixed'', ''BINARY''), (''binary'', ''BINARY'')]"

definition DELTA_TYPE_MAP :: "(string \<times> string) list" where
  "DELTA_TYPE_MAP =
    [(''boolean'', ''BOOLEAN''), (''byte'', ''TINYINT''), (''short'', ''SMALLINT''),
     (''integer'', ''INTEGER''), (''long'', ''BIGINT''), (''float'', ''FLOAT''),
     (''double'', ''DOUBLE''), (''decimal'', ''DECIMAL''), (''string'', ''VARCHAR''),
     (''binary'', ''BINARY''), (''date'', ''DATE''), (''timestamp'', ''TIMESTAMP'')]"

definition HUDI_TYPE_MAP :: "(string \<times> string) list" where
  "HUDI_TYPE_MAP =
    [(''boolean'', ''BOOLEAN''), (''int'', ''INTEGER''), (''long'', ''BIGINT''),
     (''float'', ''FLOAT''), (''double'', ''DOUBLE''), (''decimal'', ''DECIMAL''),
     (''string'', ''VARCHAR''), (''binary'', ''BINARY''), (''date'', ''DATE''),
     (''timestamp'', ''TIMESTAMP'')]"

text \<open>
  \<open>t.split("(")[0].lower()\<close> is the text before the first parenthesis, in lower case;
  \<open>t[t.index("("):]\<close> is the text from that parenthesis on.
\<close>

definition base_type :: "string \<Rightarrow> string" where
  "base_type t = lower (takeWhile (\<lambda>c. c \<noteq> CHR ''('') t)"

definition type_parameters :: "string \<Rightarrow> string" where
  "type_parameters t = dropWhile (\<lambda>c. c \<noteq> CHR ''('') t"

definition map_parameterized :: "(string \<times> string) list \<Rightarrow> string \<Rightarrow> string" where
  "map_parameterized type_map t =
     (case map_of type_map (base_type t) of
        Some sql_type \<Rightarrow>
          (if sql_type \<noteq> [] then
             (if CHR ''('' \<in> set t then sql_type @ type_parameters t else sql_type)
           else ''VARCHAR'')
      | None \<Rightarrow> ''VARCHAR'')"

text \<open>\<open>_map_iceberg_type\<close> and \<open>_map_delta_type\<close> call \<open>split\<close>, which only text has.\<close>

fun map_iceberg_type :: "json \<Rightarrow> py_exception + string" where
  "map_iceberg_type (JStr iceberg_type) = Inr (map_parameterized ICEBERG_TYPE_MAP iceberg_type)"
| "map_iceberg_type _ = Inl AttributeError"

fun map_delta_type :: "json \<Rightarrow> py_exception + string" where
  "map_delta_type (JStr delta_type) = Inr (map_parameterized DELTA_TYPE_MAP delta_type)"
| "map_delta_type _ = Inl AttributeError"

text \<open>
  \<open>_map_hudi_type\<close>: a union (a list) is replaced by its first member other than
  \<open>"null"\<close>, or by \<open>"string"\<close>; the parameters are dropped.
\<close>

definition unwrap_union :: "json \<Rightarrow> json" where
  "unwrap_union hudi_type =
     (case hudi_type of
        JList ts \<Rightarrow>
          (case filter (\<lambda>t. t \<noteq> JStr ''null'') ts of
             [] \<Rightarrow> JStr ''string''
           | t # _ \<Rightarrow> t)
      | _ \<Rightarrow> hudi_type)"

definition map_hudi_type :: "json \<Rightarrow> string" where
  "map_hudi_type hudi_type =
     (case map_of HUDI_TYPE_MAP (base_type (py_str (unwrap_union hudi_type))) of
        Some sql_type \<Rightarrow> (if sql_type \<noteq> [] then sql_type else ''VARCHAR'')
      | None \<Rightarrow> ''VARCHAR'')"

definition dget :: "(string \<times> json) list \<Rightarrow> string \<Rightarrow> json \<Rightarrow> json" where
  "dget d k dflt = (case map_of d k of Some v \<Rightarrow> v | None \<Rightarrow> dflt)"

text \<open>\<open>_extract_table_name_from_path\<close>: the last non-empty path component.\<close>

fun extract_table_name_from_path :: "json \<Rightarrow> py_exception + string" where
  "extract_table_name_from_path (JStr s3_path) =
     (let path = replace ''s3://'' [] s3_path;
          parts = split CHR ''/'' (rstrip_char CHR ''/'' path)
      in Inr (case filter (\<lambda>part. part \<noteq> []) (rev parts) of
                part # _ \<Rightarrow> part
              | [] \<Rightarrow> ''unknown_table''))"
| "extract_table_name_from_path _ = Inl AttributeError"

text \<open>The type of a field: a complex type (a dict) is replaced by its own \<open>type\<close> entry.\<close>

definition field_type_of :: "(string \<times> json) list \<Rightarrow> json" where
  "field_type_of field =
     (case dget field ''type'' (JStr ''string'') of
        JDict t \<Rightarrow> dget t ''type'' (JStr ''string'')
      | ft \<Rightarrow> ft)"

fun iceberg_column :: "json \<Rightarrow> py_exception + normalized_column" where
  "iceberg_column (JDict field) =
     py_bind (map_iceberg_type (field_type_of field)) (\<lambda>sql_type.
       Inr \<lparr> nc_name = dget field ''name'' (JStr []),
             nc_data_type = sql_type,
             nc_nullable = JBool (\<not> truthy (dget field ''required'' (JBool False))),
             nc_comment = py_or (dget field ''doc'' JNull) (dget field ''comment'' JNull) \<rparr>)"
| "iceberg_column _ = Inl AttributeError"

definition normalize_iceberg_columns :: "json \<Rightarrow> py_exception + normalized_column list" where
  "normalize_iceberg_columns schema_fields =
     py_bind (py_iter schema_fields) (py_mapM iceberg_column)"

fun delta_column :: "json \<Rightarrow> py_exception + normalized_column" where
  "delta_column (JDict field) =
     py_bind (map_delta_type (field_type_of field)) (\<lambda>sql_type.
     py_bind (py_get (dget field ''metadata'' (JDict [])) ''comment'' JNull) (\<lambda>comment.
       Inr \<lparr> nc_name = dget field ''name'' (JStr []),
             nc_data_type = sql_type,
             nc_nullable = dget field ''nullable'' (JBool True),
             nc_comment = comment \<rparr>))"
| "delta_column _ = Inl AttributeError"

definition normalize_delta_columns :: "json \<Rightarrow> py_exception + normalized_column list" where
  "normalize_delta_columns schema_fields =
     py_bind (py_iter schema_fields) (py_mapM delta_column)"

fun hudi_column :: "json \<Rightarrow> py_exception + normalized_column" where
  "hudi_column (JDict field) =
     (let field_type = field_type_of field in
       Inr \<lparr> nc_name = dget field ''name'' (JStr []),
             nc_data_type = map_hudi_type field_type,
             nc_nullable =
               (case field_type of
                  JList ts \<Rightarrow> JBool (JStr ''null'' \<in> set ts)
                | _ \<Rightarrow> JBool True),
             nc_comment = dget field ''doc'' JNull \<rparr>)"
| "hudi_column _ = Inl AttributeError"

definition normalize_hudi_columns :: "json \<Rightarrow> py_exception + normalized_column list" where
  "normalize_hudi_columns schema_fields =
     py_bind (py_iter schema_fields) (py_mapM hudi_column)"

text \<open>
  \<open>_extract_iceberg_partition_columns\<close>. The dict \<open>field_id_to_name\<close> is keyed by
  whatever the \<open>id\<close> entries hold: a list or a dict cannot be a key (\<open>TypeError\<close>), and
  \<open>True\<close>, \<open>False\<close> are the keys \<open>1\<close>, \<open>0\<close>. A later field with the same id replaces the
  name of an earlier one.
\<close>

fun hashable :: "json \<Rightarrow> bool" where
  "hashable (JList xs) = False"
| "hashable (JDict d) = False"
| "hashable _ = True"

fun dict_key :: "json \<Rightarrow> json" where
  "dict_key (JBool b) = JInt (if b then 1 else 0)"
| "dict_key v = v"

fun id_map_update :: "json \<Rightarrow> json \<Rightarrow> (json \<times> json) list \<Rightarrow> (json \<times> json) list" where
  "id_map_update k v [] = [(k, v)]"
| "id_map_update k v (p # ps) = (if fst p = k then (k, v) # ps else p # id_map_update k v ps)"

fun field_id_to_name :: "(json \<times> json) list \<Rightarrow> json list \<Rightarrow> py_exception + (json \<times> json) list" where
  "field_id_to_name m [] = Inr m"
| "field_id_to_name m (JDict field # rest) =
     (let k = dget field ''id'' JNull; v = dget field ''name'' JNull in
      if hashable k then field_id_to_name (id_map_update (dict_key k) v m) rest
      else Inl TypeError)"
| "field_id_to_name m (_ # rest) = Inl AttributeError"

fun partition_columns :: "(json \<times> json) list \<Rightarrow> json list \<Rightarrow> py_exception + json list" where
  "partition_columns m [] = Inr []"
| "partition_columns m (JDict partition_field # rest) =
     (let source_id = py_or (dget partition_field ''source-id'' JNull)
                            (dget partition_field ''sourceId'' JNull) in
      if truthy source_id then
        (if hashable source_id then
           (case map_of m (dict_key source_id) of
              Some name \<Rightarrow> py_bind (partition_columns m rest) (\<lambda>ps. Inr (name # ps))
            | None \<Rightarrow> partition_columns m rest)
         else Inl TypeError)
      else partition_columns m rest)"
| "partition_columns m (_ # rest) = Inl AttributeError"

definition extract_iceberg_partition_columns :: "json \<Rightarrow> json \<Rightarrow> py_exception + json list" where
  "extract_iceberg_partition_columns partition_spec schema =
     py_bind (py_iter schema) (\<lambda>schema_fields.
     py_bind (field_id_to_name [] schema_fields) (\<lambda>m.
     py_bind (py_iter partition_spec) (\<lambda>spec.
       partition_columns m spec)))"

text \<open>\<open>metadata.properties[key] = value\<close> on the object being built.\<close>

definition set_property :: "string \<Rightarrow> json \<Rightarrow> normalized_metadata \<Rightarrow> py_exception + normalized_metadata" where
  "set_property k v metadata =
     py_bind (py_setitem (nm_properties metadata) k v) (\<lambda>props.
       Inr (metadata\<lparr>nm_properties := props\<rparr>))"

fun normalize_iceberg :: "datetime \<Rightarrow> json \<Rightarrow> py_exception + normalized_metadata" where
  "normalize_iceberg now (JDict raw_metadata) =
     (let location = dget raw_metadata ''location'' (JStr []) in
      py_bind (extract_table_name_from_path location) (\<lambda>table_name.
      py_bind (normalize_iceberg_columns (dget raw_metadata ''schema'' (JList []))) (\<lambda>columns.
      py_bind (extract_iceberg_partition_columns
                 (dget raw_metadata ''partition_spec'' (JList []))
                 (dget raw_metadata ''schema'' (JList []))) (\<lambda>partitions.
      py_bind (py_len (dget raw_metadata ''snapshots'' (JList []))) (\<lambda>n_snapshots.
      py_bind
        (let metadata =
           \<lparr> nm_table_name = JStr table_name,
             nm_format = ''ICEBERG'',
             nm_location = location,
             nm_columns = columns,
             nm_partitions = JList partitions,
             nm_properties = dget raw_metadata ''properties'' (JDict []),
             nm_supports_time_travel = JBool (n_snapshots > 0),
             nm_created_at = None,
             nm_updated_at = Some now,
             nm_num_files = None,
             nm_size_bytes = None,
             nm_row_count = None \<rparr>
         in if truthy (dget raw_metadata ''current_snapshot_id'' JNull)
            then set_property ''iceberg.current_snapshot_id''
                   (JStr (py_str (dget raw_metadata ''current_snapshot_id'' JNull))) metadata
            else Inr metadata) (\<lambda>metadata.
      if truthy (dget raw_metadata ''format_version'' JNull)
      then set_property ''iceberg.format_version''
             (JStr (py_str (dget raw_metadata ''format_version'' JNull))) metadata
      else Inr metadata))))))"
| "normalize_iceberg now _ = Inl AttributeError"

fun normalize_delta :: "datetime \<Rightarrow> json \<Rightarrow> py_exception + normalized_metadata" where
  "normalize_delta now (JDict raw_metadata) =
     (let location = dget raw_metadata ''location'' (JStr []) in
      py_bind (py_get (dget raw_metadata ''properties'' (JDict [])) ''table.name'' JNull) (\<lambda>name_property.
      py_bind (if \<not> truthy name_property
               then py_bind (extract_table_name_from_path location) (\<lambda>n. Inr (JStr n))
               else Inr name_property) (\<lambda>table_name.
      py_bind (normalize_delta_columns (dget raw_metadata ''schema'' (JList []))) (\<lambda>columns.
      py_bind
        (let metadata =
           \<lparr> nm_table_name = table_name,
             nm_format = ''DELTA'',
             nm_location = location,
             nm_columns = columns,
             nm_partitions = dget raw_metadata ''partition_columns'' (JList []),
             nm_properties = dget raw_metadata ''properties'' (JDict []),
             nm_supports_time_travel = dget raw_metadata ''supports_time_travel'' (JBool True),
             nm_created_at = None,
             nm_updated_at = Some now,
             nm_num_files = None,
             nm_size_bytes = None,
             nm_row_count = None \<rparr>
         in if dget raw_metadata ''version'' JNull \<noteq> JNull
            then set_property ''delta.version''
                   (JStr (py_str (dget raw_metadata ''version'' JNull))) metadata
            else Inr metadata) (\<lambda>metadata.
      let protocol = dget raw_metadata ''protocol'' JNull in
      if truthy protocol
      then py_bind (py_get protocol ''minReaderVersion'' (JStr [])) (\<lambda>min_reader.
           py_bind (set_property ''delta.minReaderVersion'' (JStr (py_str min_reader)) metadata) (\<lambda>metadata.
           py_bind (py_get protocol ''minWriterVersion'' (JStr [])) (\<lambda>min_writer.
             set_property ''delta.minWriterVersion'' (JStr (py_str min_writer)) metadata)))
      else Inr metadata)))))"
| "normalize_delta now _ = Inl AttributeError"

fun normalize_hudi :: "datetime \<Rightarrow> json \<Rightarrow> py_exception + normalized_metadata" where
  "normalize_hudi now (JDict raw_metadata) =
     py_bind (normalize_hudi_columns (dget raw_metadata ''schema'' (JList []))) (\<lambda>columns.
     py_bind
       (let metadata =
          \<lparr> nm_table_name = dget raw_metadata ''table_name'' (JStr ''unknown''),
            nm_format = ''HUDI'',
            nm_location = dget raw_metadata ''location'' (JStr []),
            nm_columns = columns,
            nm_partitions = dget raw_metadata ''partition_fields'' (JList []),
            nm_properties = dget raw_metadata ''properties'' (JDict []),
            nm_supports_time_travel = dget raw_metadata ''supports_time_travel'' (JBool False),
            nm_created_at = None,
            nm_updated_at = Some now,
            nm_num_files = None,
            nm_size_bytes = None,
            nm_row_count = None \<rparr>
        in if truthy (dget raw_metadata ''table_type'' JNull)
           then set_property ''hudi.table.type'' (dget raw_metadata ''table_type'' JNull) metadata
           else Inr metadata) (\<lambda>metadata.
     let timeline = dget raw_metadata ''timeline'' (JList []) in
     if truthy timeline
     then py_bind (py_len timeline) (\<lambda>n.
            set_property ''hudi.commits.count'' (JStr (string_of_nat n)) metadata)
     else Inr metadata))"
| "normalize_hudi now _ = Inl AttributeError"

text \<open>
  \<open>normalize\<close>: every exception other than \<open>NormalizationError\<close> that the three
  functions raise is re-raised as a \<open>NormalizationError\<close>.
\<close>

definition wrap_exception :: "py_exception + 'a \<Rightarrow> normalization_cause + 'a" where
  "wrap_exception r = (case r of Inl e \<Rightarrow> Inl (Raised e) | Inr v \<Rightarrow> Inr v)"

definition normalize :: "datetime \<Rightarrow> json \<Rightarrow> string \<Rightarrow> normalization_cause + normalized_metadata" where
  "normalize now raw_metadata table_format =
     (if table_format = ''ICEBERG'' then wrap_exception (normalize_iceberg now raw_metadata)
      else if table_format = ''DELTA'' then wrap_exception (normalize_delta now raw_metadata)
      else if table_format = ''HUDI'' then wrap_exception (normalize_hudi now raw_metadata)
      else Inl (UnsupportedFormat table_format))"

section \<open>Object storage\<close>

text \<open>
  The S3 client, as far as the detector and the readers use it. A bucket answers with its
  objects (key and decoded body), or every call on it raises a \<open>ClientError\<close> with an
  error code, or fails with an exception that is not a \<open>ClientError\<close>.
\<close>

datatype 'a s3_outcome = Response 'a | ClientError string | OtherFailure

type_synonym s3_client = "string \<Rightarrow> (string \<times> string) list s3_outcome"

text \<open>
  \<open>list_objects_v2(Bucket, Prefix, MaxKeys)\<close>: the keys with the prefix, in key order, at
  most \<open>MaxKeys\<close> of them (1000 when the caller gives none). An empty list stands for a
  response without \<open>Contents\<close>.
\<close>

definition list_objects_v2 :: "s3_client \<Rightarrow> string \<Rightarrow> string \<Rightarrow> nat \<Rightarrow> string list s3_outcome" where
  "list_objects_v2 s3 bucket prefix max_keys =
     (case s3 bucket of
        Response objects \<Rightarrow>
          Response (take max_keys (filter (\<lambda>k. startswith k prefix) (sort (map fst objects))))
      | ClientError code \<Rightarrow> ClientError code
      | OtherFailure \<Rightarrow> OtherFailure)"


text \<open>\<open>_parse_s3_path\<close>, the part that the detector and the readers share.\<close>

definition bucket_and_prefix :: "string \<Rightarrow> string \<times> string" where
  "bucket_and_prefix s3_path =
     (let path_parts = split1 CHR ''/'' (replace ''s3://'' [] s3_path);
          bucket = hd path_parts;
          prefix = (if length path_parts > 1 then path_parts ! 1 else [])
      in (bucket, if prefix \<noteq> [] \<and> \<not> endswith prefix ''/'' then prefix @ ''/'' else prefix))"

section \<open>The format detector (\<open>src/detectors/format_detector.py\<close>)\<close>

datatype table_format = ICEBERG | DELTA | HUDI | UNKNOWN

datatype detection_cause =
  InvalidPath | NoSuchBucket | AccessDenied | S3Error | NoRecognizedFormat

datatype detection_error = FormatDetectionError detection_cause

definition parse_s3_path :: "string \<Rightarrow> detection_error + string \<times> string" where
  "parse_s3_path s3_path =
     (if \<not> startswith s3_path ''s3://'' then Inl (FormatDetectionError InvalidPath)
      else Inr (bucket_and_prefix s3_path))"

text \<open>
  \<open>_check_directory_exists\<close>: one listing with \<open>MaxKeys=1\<close>. A \<open>ClientError\<close> becomes a
  \<open>FormatDetectionError\<close>; any other exception is logged and answered with \<open>False\<close>.
\<close>

definition check_directory_exists :: "s3_client \<Rightarrow> string \<Rightarrow> string \<Rightarrow> string \<Rightarrow> detection_error + bool" where
  "check_directory_exists s3 bucket prefix directory =
     (case list_objects_v2 s3 bucket (prefix @ directory) 1 of
        Response contents \<Rightarrow> Inr (length contents > 0)
      | ClientError code \<Rightarrow>
          (if code = ''NoSuchBucket'' then Inl (FormatDetectionError NoSuchBucket)
           else if code = ''AccessDenied'' then Inl (FormatDetectionError AccessDenied)
           else Inl (FormatDetectionError S3Error))
      | OtherFailure \<Rightarrow> Inr False)"

definition detect_format :: "s3_client \<Rightarrow> string \<Rightarrow> detection_error + table_format" where
  "detect_format s3 s3_path =
     py_bind (parse_s3_path s3_path) (\<lambda>(bucket, prefix).
     py_bind (check_directory_exists s3 bucket prefix ''metadata/'') (\<lambda>iceberg.
     if iceberg then Inr ICEBERG else
     py_bind (check_directory_exists s3 bucket prefix ''_delta_log/'') (\<lambda>delta.
     if delta then Inr DELTA else
     py_bind (check_directory_exists s3 bucket prefix ''.hoodie/'') (\<lambda>hudi.
     if hudi then Inr HUDI else
     Inl (FormatDetectionError NoRecognizedFormat)))))"

section \<open>The Delta reader (\<open>src/readers/delta_reader.py\<close>)\<close>










text \<open>\<open>needle in obj\<close> for a string needle.\<close>

fun is_substring :: "string \<Rightarrow> string \<Rightarrow> bool" where
  "is_substring p [] = (p = [])"
| "is_substring p (c # cs) = (startswith (c # cs) p \<or> is_substring p cs)"

fun py_contains :: "json \<Rightarrow> string \<Rightarrow> py_exception + bool" where
  "py_contains (JDict d) k = Inr (has_key d k)"
| "py_contains (JList xs) k = Inr (JStr k \<in> set xs)"
| "py_contains (JStr s) k = Inr (is_substring k s)"
| "py_contains _ k = Inl TypeError"


















section \<open>The Iceberg reader (\<open>src/readers/iceberg_reader.py\<close>)\<close>

text \<open>
  The part of \<open>read_metadata\<close> that follows \<open>json.loads\<close> of the metadata file:
  \<open>_extract_schema\<close>, \<open>_extract_partition_spec\<close> and the raw record built from them.
\<close>

text \<open>
  \<open>a == b\<close> on JSON values: \<open>True\<close> and \<open>False\<close> are equal to \<open>1\<close> and \<open>0\<close>, lists are
  compared member by member, and dicts by their entries, in any order.
\<close>

fun py_eq :: "json \<Rightarrow> json \<Rightarrow> bool"
  and py_eq_list :: "json list \<Rightarrow> json list \<Rightarrow> bool"
  and py_eq_items :: "(string \<times> json) list \<Rightarrow> (string \<times> json) list \<Rightarrow> bool" where
  "py_eq JNull JNull = True"
| "py_eq (JBool a) (JBool b) = (a = b)"
| "py_eq (JBool a) (JInt j) = (j = (if a then 1 else 0))"
| "py_eq (JInt i) (JBool b) = (i = (if b then 1 else 0))"
| "py_eq (JInt i) (JInt j) = (i = j)"
| "py_eq (JStr s) (JStr t) = (s = t)"
| "py_eq (JList xs) (JList ys) = py_eq_list xs ys"
| "py_eq (JDict d) (JDict e) = (length d = length e \<and> py_eq_items d e)"
| "py_eq _ _ = False"
| "py_eq_list [] [] = True"
| "py_eq_list (x # xs) (y # ys) = (py_eq x y \<and> py_eq_list xs ys)"
| "py_eq_list _ _ = False"
| "py_eq_items [] e = True"
| "py_eq_items (p # ps) e =
     (case map_of e (fst p) of
        None \<Rightarrow> False
      | Some w \<Rightarrow> py_eq (snd p) w \<and> py_eq_items ps e)"

text \<open>The first entry of a list of dicts whose \<open>id_key\<close> entry is equal to \<open>wanted\<close>.\<close>

fun fields_of_entry :: "string \<Rightarrow> json \<Rightarrow> json list \<Rightarrow> py_exception + json" where
  "fields_of_entry id_key wanted [] = Inr (JList [])"
| "fields_of_entry id_key wanted (entry # rest) =
     py_bind (py_get entry id_key JNull) (\<lambda>entry_id.
       if py_eq entry_id wanted then py_get entry ''fields'' (JList [])
       else fields_of_entry id_key wanted rest)"

definition iceberg_extract_schema :: "(string \<times> json) list \<Rightarrow> py_exception + json" where
  "iceberg_extract_schema metadata =
     (let schema = dget metadata ''schema'' (JDict []) in
      py_bind (py_contains schema ''fields'') (\<lambda>has_fields.
        if has_fields then py_item schema ''fields''
        else if has_key metadata ''schemas'' then
          py_bind (py_iter (dget metadata ''schemas'' JNull))
            (fields_of_entry ''schema-id'' (dget metadata ''current-schema-id'' (JInt 0)))
        else Inr (JList [])))"

definition iceberg_extract_partition_spec :: "(string \<times> json) list \<Rightarrow> py_exception + json" where
  "iceberg_extract_partition_spec metadata =
     (let partition_spec = dget metadata ''partition-spec'' (JList []) in
      if is_list partition_spec then Inr partition_spec
      else if has_key metadata ''partition-specs'' then
        py_bind (py_iter (dget metadata ''partition-specs'' JNull))
          (fields_of_entry ''spec-id'' (dget metadata ''default-spec-id'' (JInt 0)))
      else Inr (JList []))"

fun iceberg_raw_metadata :: "string \<Rightarrow> string \<Rightarrow> json \<Rightarrow> py_exception + json" where
  "iceberg_raw_metadata s3_path metadata_file (JDict metadata) =
     py_bind (iceberg_extract_schema metadata) (\<lambda>schema.
     py_bind (iceberg_extract_partition_spec metadata) (\<lambda>partition_spec.
     let snapshots = dget metadata ''snapshots'' (JList []) in
     py_bind (py_len schema) (\<lambda>n_columns.
     py_bind (py_len snapshots) (\<lambda>n_snapshots.
       Inr (JDict
         [(''format'', JStr ''ICEBERG''),
          (''location'', JStr s3_path),
          (''schema'', schema),
          (''partition_spec'', partition_spec),
          (''snapshots'', snapshots),
          (''current_snapshot_id'', dget metadata ''current-snapshot-id'' JNull),
          (''properties'', dget metadata ''properties'' (JDict [])),
          (''format_version'', dget metadata ''format-version'' (JInt 1)),
          (''last_updated_ms'', dget metadata ''last-updated-ms'' JNull),
          (''metadata_file'', JStr metadata_file)])))))"
| "iceberg_raw_metadata s3_path metadata_file _ = Inl AttributeError"

section \<open>The data model (\<open>src/models/table_metadata.py\<close>)\<close>

text \<open>
  The two dataclasses with the field types they declare. The three statistics are taken
  to fit the 64-bit \<open>INTEGER\<close> columns that hold them.
\<close>

record column_metadata =
  name :: string
  data_type :: string
  nullable :: bool
  comment :: "string option"

record table_metadata =
  table_name :: string
  format :: string
  location :: string
  columns :: "column_metadata list"
  partitions :: "string list"
  properties :: "(string \<times> string) list"
  supports_time_travel :: bool
  created_at :: "datetime option"
  updated_at :: "datetime option"
  num_files :: "int option"
  size_bytes :: "int option"
  row_count :: "int option"









section \<open>The metadata store (\<open>src/storage/metadata_store.py\<close>)\<close>

text \<open>
  The catalog is the content of the two SQL tables, in row order, with the counters that
  \<open>AUTOINCREMENT\<close> keeps for them. The \<open>TEXT\<close> columns \<open>partitions\<close> and \<open>properties\<close> hold
  \<open>json.dumps\<close> of a list of strings and of a string dict, which \<open>json.loads\<close> gives back
  unchanged; a row keeps the value itself, or \<open>None\<close> for SQL \<open>NULL\<close>. A \<open>TIMESTAMP\<close> column
  keeps the time that \<open>datetime.fromisoformat\<close> reads back from it.
\<close>

record table_row =
  row_id :: nat
  row_table_name :: string
  row_format :: string
  row_location :: string
  row_partitions :: "string list option"
  row_properties :: "(string \<times> string) list option"
  row_supports_time_travel :: bool
  row_num_files :: "int option"
  row_size_bytes :: "int option"
  row_row_count :: "int option"
  row_created_at :: "datetime option"
  row_updated_at :: "datetime option"

record column_row =
  col_id :: nat
  col_table_id :: nat
  col_column_name :: string
  col_data_type :: string
  col_nullable :: bool
  col_comment :: "string option"
  col_column_order :: nat

record catalog =
  table_rows :: "table_row list"
  column_rows :: "column_row list"
  table_sequence :: nat
  column_sequence :: nat


datatype sqlite_error = IntegrityError

datatype storage_error = StorageError sqlite_error

text \<open>\<open>AUTOINCREMENT\<close>: one more than the largest id the table ever had.\<close>

definition next_id :: "nat \<Rightarrow> nat list \<Rightarrow> nat" where
  "next_id seq ids = Suc (fold max ids seq)"

text \<open>\<open>INSERT INTO table_metadata\<close>: \<open>table_name\<close> is \<open>UNIQUE\<close>.\<close>

definition insert_table_row :: "table_row \<Rightarrow> catalog \<Rightarrow> sqlite_error + nat \<times> catalog" where
  "insert_table_row r db =
     (if row_table_name r \<in> set (map row_table_name (table_rows db)) then Inl IntegrityError
      else
        (let new_id = next_id (table_sequence db) (map row_id (table_rows db))
         in Inr (new_id, db\<lparr> table_rows := table_rows db @ [r\<lparr>row_id := new_id\<rparr>],
                              table_sequence := new_id \<rparr>)))"

text \<open>
  \<open>INSERT INTO column_metadata\<close>: \<open>table_id\<close> references a row of \<open>table_metadata\<close>, and
  \<open>(table_id, column_name)\<close> is \<open>UNIQUE\<close>.
\<close>

definition column_keys :: "catalog \<Rightarrow> (nat \<times> string) set" where
  "column_keys db = set (map (\<lambda>x. (col_table_id x, col_column_name x)) (column_rows db))"

definition insert_column_row :: "column_row \<Rightarrow> catalog \<Rightarrow> sqlite_error + catalog" where
  "insert_column_row c db =
     (if col_table_id c \<notin> set (map row_id (table_rows db)) then Inl IntegrityError
      else if (col_table_id c, col_column_name c) \<in> column_keys db then Inl IntegrityError
      else
        (let new_id = next_id (column_sequence db) (map col_id (column_rows db))
         in Inr (db\<lparr> column_rows := column_rows db @ [c\<lparr>col_id := new_id\<rparr>],
                      column_sequence := new_id \<rparr>)))"

text \<open>The loop \<open>for idx, column in enumerate(metadata.columns)\<close> of both save paths.\<close>

fun insert_columns :: "nat \<Rightarrow> nat \<Rightarrow> column_metadata list \<Rightarrow> catalog \<Rightarrow> sqlite_error + catalog" where
  "insert_columns table_id idx [] db = Inr db"
| "insert_columns table_id idx (column # rest) db =
     py_bind (insert_column_row
                \<lparr> col_id = 0, col_table_id = table_id, col_column_name = name column,
                  col_data_type = data_type column, col_nullable = nullable column,
                  col_comment = comment column, col_column_order = idx \<rparr> db)
             (insert_columns table_id (Suc idx) rest)"

text \<open>
  \<open>_insert_table_metadata\<close>. \<open>now1\<close> and \<open>now2\<close> are the first and the second reading of
  \<open>datetime.now()\<close> that the call makes, where it makes them.
\<close>

definition insert_table_metadata ::
  "datetime \<Rightarrow> datetime \<Rightarrow> table_metadata \<Rightarrow> catalog \<Rightarrow> sqlite_error + nat \<times> catalog" where
  "insert_table_metadata now1 now2 metadata db =
     py_bind (insert_table_row
        \<lparr> row_id = 0,
          row_table_name = table_name metadata,
          row_format = format metadata,
          row_location = location metadata,
          row_partitions = Some (partitions metadata),
          row_properties = Some (properties metadata),
          row_supports_time_travel = supports_time_travel metadata,
          row_num_files = num_files metadata,
          row_size_bytes = size_bytes metadata,
          row_row_count = row_count metadata,
          row_created_at = Some (case created_at metadata of Some t \<Rightarrow> t | None \<Rightarrow> now1),
          row_updated_at =
            Some (case updated_at metadata of
                    Some t \<Rightarrow> t
                  | None \<Rightarrow> (if created_at metadata = None then now2 else now1)) \<rparr> db)
       (\<lambda>(table_id, db').
          py_bind (insert_columns table_id 0 (columns metadata) db') (\<lambda>db''.
            Inr (table_id, db'')))"

text \<open>\<open>_update_table_metadata\<close>: the row keeps its id, its name and its \<open>created_at\<close>.\<close>

definition update_table_metadata ::
  "datetime \<Rightarrow> nat \<Rightarrow> table_metadata \<Rightarrow> catalog \<Rightarrow> sqlite_error + catalog" where
  "update_table_metadata now1 table_id metadata db =
     (let updated =
            map (\<lambda>r. if row_id r = table_id
                      then r\<lparr> row_format := format metadata,
                              row_location := location metadata,
                              row_partitions := Some (partitions metadata),
                              row_properties := Some (properties metadata),
                              row_supports_time_travel := supports_time_travel metadata,
                              row_num_files := num_files metadata,
                              row_size_bytes := size_bytes metadata,
                              row_row_count := row_count metadata,
                              row_updated_at := Some now1 \<rparr>
                      else r) (table_rows db);
          remaining = filter (\<lambda>c. col_table_id c \<noteq> table_id) (column_rows db)
      in insert_columns table_id 0 (columns metadata)
           (db\<lparr> table_rows := updated, column_rows := remaining \<rparr>))"

text \<open>
  \<open>save_table_metadata\<close>. The statements run in one transaction, which is committed on
  the path that returns; when a statement raises, the connection is abandoned without a
  commit and the catalog is as it was.
\<close>

definition save_statements ::
  "datetime \<Rightarrow> datetime \<Rightarrow> table_metadata \<Rightarrow> catalog \<Rightarrow> sqlite_error + nat \<times> catalog" where
  "save_statements now1 now2 metadata db =
     (case find (\<lambda>r. row_table_name r = table_name metadata) (table_rows db) of
        Some existing \<Rightarrow>
          py_bind (update_table_metadata now1 (row_id existing) metadata db) (\<lambda>db'.
            Inr (row_id existing, db'))
      | None \<Rightarrow> insert_table_metadata now1 now2 metadata db)"

definition save_table_metadata ::
  "datetime \<Rightarrow> datetime \<Rightarrow> table_metadata \<Rightarrow> catalog \<Rightarrow> (storage_error + nat) \<times> catalog" where
  "save_table_metadata now1 now2 metadata db =
     (case save_statements now1 now2 metadata db of
        Inl e \<Rightarrow> (Inl (StorageError e), db)
      | Inr (table_id, db') \<Rightarrow> (Inr table_id, db'))"

text \<open>\<open>get_table_metadata\<close>: the row with the name, and its columns by \<open>column_order\<close>.\<close>

definition column_of_row :: "column_row \<Rightarrow> column_metadata" where
  "column_of_row c =
     \<lparr> name = col_column_name c, data_type = col_data_type c,
       nullable = col_nullable c, comment = col_comment c \<rparr>"

definition get_table_metadata :: "catalog \<Rightarrow> string \<Rightarrow> table_metadata option" where
  "get_table_metadata db tname =
     (case find (\<lambda>r. row_table_name r = tname) (table_rows db) of
        None \<Rightarrow> None
      | Some trow \<Rightarrow>
          (let crows =
                 sort_key col_column_order
                   (filter (\<lambda>c. col_table_id c = row_id trow) (column_rows db))
           in Some \<lparr> table_name = row_table_name trow,
                     format = row_format trow,
                     location = row_location trow,
                     columns = map column_of_row crows,
                     partitions = (case row_partitions trow of Some ps \<Rightarrow> ps | None \<Rightarrow> []),
                     properties = (case row_properties trow of Some ps \<Rightarrow> ps | None \<Rightarrow> []),
                     supports_time_travel = row_supports_time_travel trow,
                     created_at = row_created_at trow,
                     updated_at = row_updated_at trow,
                     num_files = row_num_files trow,
                     size_bytes = row_size_bytes trow,
                     row_count = row_row_count trow \<rparr>))"


text \<open>
  \<open>delete_table_metadata\<close>: the connection has \<open>foreign_keys = ON\<close>, and the foreign key of
  \<open>column_metadata\<close> is \<open>ON DELETE CASCADE\<close>.
\<close>

definition delete_table_metadata :: "catalog \<Rightarrow> string \<Rightarrow> bool \<times> catalog" where
  "delete_table_metadata db tname =
     (let deleted = filter (\<lambda>r. row_table_name r = tname) (table_rows db);
          deleted_ids = map row_id deleted
      in (length deleted > 0,
          db\<lparr> table_rows := filter (\<lambda>r. row_table_name r \<noteq> tname) (table_rows db),
               column_rows := filter (\<lambda>c. col_table_id c \<notin> set deleted_ids) (column_rows db) \<rparr>))"


text \<open>
  What the foreign key of \<open>column_metadata\<close> maintains: every column row belongs to a row
  of \<open>table_metadata\<close>.
\<close>

definition foreign_keys_ok :: "catalog \<Rightarrow> bool" where
  "foreign_keys_ok db =
     list_all (\<lambda>c. col_table_id c \<in> set (map row_id (table_rows db))) (column_rows db)"

section \<open>Example inputs\<close>

text \<open>
  An Iceberg metadata file, as text and parsed, and the raw record that the Iceberg
  reader returns for it: two schema fields, and a partition spec whose second field
  refers to the field id 7, which the schema lacks.
\<close>

definition orders_metadata_text :: string where
  \<open>orders_metadata_text =
     ''{"format-version":2,"location":"s3://lake/warehouse/orders","last-updated-ms":1700000000000,"current-snapshot-id":77,"schema":{"type":"struct","fields":[{"id":1,"name":"order_id","type":"long","required":true},{"id":5,"name":"region","type":"string","required":false}]},"partition-spec":[{"source-id":5,"field-id":1000,"name":"region","transform":"identity"},{"source-id":7,"field-id":1001,"name":"ghost","transform":"identity"}],"snapshots":[{"snapshot-id":77}],"properties":{}}''\<close>

definition orders_metadata :: json where
  "orders_metadata =
     JDict
       [(''format-version'', JInt 2),
        (''location'', JStr ''s3://lake/warehouse/orders''),
        (''last-updated-ms'', JInt 1700000000000),
        (''current-snapshot-id'', JInt 77),
        (''schema'', JDict
           [(''type'', JStr ''struct''),
            (''fields'', JList
               [JDict [(''id'', JInt 1), (''name'', JStr ''order_id''), (''type'', JStr ''long''),
                       (''required'', JBool True)],
                JDict [(''id'', JInt 5), (''name'', JStr ''region''), (''type'', JStr ''string''),
                       (''required'', JBool False)]])]),
        (''partition-spec'', JList
           [JDict [(''source-id'', JInt 5), (''field-id'', JInt 1000), (''name'', JStr ''region''),
                   (''transform'', JStr ''identity'')],
            JDict [(''source-id'', JInt 7), (''field-id'', JInt 1001), (''name'', JStr ''ghost''),
                   (''transform'', JStr ''identity'')]]),
        (''snapshots'', JList [JDict [(''snapshot-id'', JInt 77)]]),
        (''properties'', JDict [])]"

definition region_partition_field :: "(string \<times> json) list" where
  "region_partition_field =
     [(''source-id'', JInt 5), (''field-id'', JInt 1000), (''name'', JStr ''region''),
      (''transform'', JStr ''identity'')]"

definition ghost_partition_field :: "(string \<times> json) list" where
  "ghost_partition_field =
     [(''source-id'', JInt 7), (''field-id'', JInt 1001), (''name'', JStr ''ghost''),
      (''transform'', JStr ''identity'')]"

definition orders_raw :: "(string \<times> json) list" where
  "orders_raw =
     [(''format'', JStr ''ICEBERG''),
      (''location'', JStr ''s3://lake/warehouse/orders''),
      (''schema'', JList
         [JDict [(''id'', JInt 1), (''name'', JStr ''order_id''), (''type'', JStr ''long''),
                 (''required'', JBool True)],
          JDict [(''id'', JInt 5), (''name'', JStr ''region''), (''type'', JStr ''string''),
                 (''required'', JBool False)]]),
      (''partition_spec'', JList [JDict region_partition_field, JDict ghost_partition_field]),
      (''snapshots'', JList [JDict [(''snapshot-id'', JInt 77)]]),
      (''current_snapshot_id'', JInt 77),
      (''properties'', JDict []),
      (''format_version'', JInt 2),
      (''last_updated_ms'', JInt 1700000000000),
      (''metadata_file'', JStr ''warehouse/orders/metadata/v1.metadata.json'')]"

definition orders_normalized :: "datetime \<Rightarrow> normalized_metadata" where
  "orders_normalized now =
     \<lparr> nm_table_name = JStr ''orders'',
       nm_format = ''ICEBERG'',
       nm_location = JStr ''s3://lake/warehouse/orders'',
       nm_columns =
         [\<lparr> nc_name = JStr ''order_id'', nc_data_type = ''BIGINT'',
             nc_nullable = JBool False, nc_comment = JNull \<rparr>,
          \<lparr> nc_name = JStr ''region'', nc_data_type = ''VARCHAR'',
             nc_nullable = JBool True, nc_comment = JNull \<rparr>],
       nm_partitions = JList [JStr ''region''],
       nm_properties =
         JDict [(''iceberg.current_snapshot_id'', JStr ''77''),
                (''iceberg.format_version'', JStr ''2'')],
       nm_supports_time_travel = JBool True,
       nm_created_at = None,
       nm_updated_at = Some now,
       nm_num_files = None,
       nm_size_bytes = None,
       nm_row_count = None \<rparr>"

text \<open>A Delta raw record whose partition column is not a column of its schema.\<close>

definition events_raw :: "(string \<times> json) list" where
  "events_raw =
     [(''format'', JStr ''DELTA''),
      (''location'', JStr ''s3://lake/warehouse/events''),
      (''version'', JInt 0),
      (''schema'', JList
         [JDict [(''name'', JStr ''id''), (''type'', JStr ''long''), (''nullable'', JBool False),
                 (''metadata'', JDict [])]]),
      (''partition_columns'', JList [JStr ''ghost'']),
      (''properties'', JDict []),
      (''created_time'', JNull),
      (''supports_time_travel'', JBool True),
      (''protocol'', JNull)]"

definition events_normalized :: "datetime \<Rightarrow> normalized_metadata" where
  "events_normalized now =
     \<lparr> nm_table_name = JStr ''events'',
       nm_format = ''DELTA'',
       nm_location = JStr ''s3://lake/warehouse/events'',
       nm_columns =
         [\<lparr> nc_name = JStr ''id'', nc_data_type = ''BIGINT'',
             nc_nullable = JBool False, nc_comment = JNull \<rparr>],
       nm_partitions = JList [JStr ''ghost''],
       nm_properties = JDict [(''delta.version'', JStr ''0'')],
       nm_supports_time_travel = JBool True,
       nm_created_at = None,
       nm_updated_at = Some now,
       nm_num_files = None,
       nm_size_bytes = None,
       nm_row_count = None \<rparr>"

text \<open>
  A bucket with four table directories: \<open>docs\<close> has a \<open>metadata/\<close> directory with no
  Iceberg file in it, \<open>events\<close> and \<open>clicks\<close> are Delta tables whose only log file has no
  \<open>schemaString\<close>, or one that is not JSON, and \<open>orders\<close> is an Iceberg table.
\<close>

definition log_without_schema :: string where
  \<open>log_without_schema = ''{"metaData":{"id":"t1","partitionColumns":[]}}''\<close>

definition log_with_broken_schema :: string where
  \<open>log_with_broken_schema = ''{"metaData":{"id":"t2","schemaString":"{broken"}}''\<close>

definition lake :: s3_client where
  "lake bucket =
     (if bucket = ''lake'' then
        Response
          [(''warehouse/docs/metadata/README.txt'', ''notes''),
           (''warehouse/events/_delta_log/00000000000000000000.json'', log_without_schema),
           (''warehouse/clicks/_delta_log/00000000000000000007.json'', log_with_broken_schema),
           (''warehouse/orders/metadata/v1.metadata.json'', orders_metadata_text)]
      else ClientError ''NoSuchBucket'')"





definition orders_catalog :: catalog where
  "orders_catalog =
     \<lparr> table_rows =
         [\<lparr> row_id = 1, row_table_name = ''orders'', row_format = ''ICEBERG'',
             row_location = ''s3://lake/warehouse/orders'',
             row_partitions = Some [''region''],
             row_properties =
               Some [(''iceberg.current_snapshot_id'', ''77''), (''iceberg.format_version'', ''2'')],
             row_supports_time_travel = True,
             row_num_files = None, row_size_bytes = None, row_row_count = None,
             row_created_at = Some 10, row_updated_at = Some 5 \<rparr>],
       column_rows =
         [\<lparr> col_id = 1, col_table_id = 1, col_column_name = ''order_id'',
             col_data_type = ''BIGINT'', col_nullable = False, col_comment = None,
             col_column_order = 0 \<rparr>,
          \<lparr> col_id = 2, col_table_id = 1, col_column_name = ''region'',
             col_data_type = ''VARCHAR'', col_nullable = True, col_comment = None,
             col_column_order = 1 \<rparr>],
       table_sequence = 1,
       column_sequence = 2 \<rparr>"

section \<open>Basic facts\<close>

lemma py_bind_simps [simp]:
  "py_bind (Inl e) f = Inl e"
  "py_bind (Inr v) f = f v"
  by (simp_all add: py_bind_def)

lemma py_bind_eq_Inr:
  "py_bind r f = Inr y \<longleftrightarrow> (\<exists>v. r = Inr v \<and> f v = Inr y)"
  by (cases r) simp_all

lemma map_of_dict_update [simp]: "map_of (dict_update k v d) = (map_of d)(k \<mapsto> v)"
  by (induction d) (auto simp: fun_eq_iff)

lemma dget_dict_update [simp]:
  "dget (dict_update k v d) k' x = (if k' = k then v else dget d k' x)"
  by (simp add: dget_def)

lemma dget_has_key: "has_key d k \<Longrightarrow> dget d k x = dget d k y"
  by (auto simp: has_key_def dget_def)

lemma py_mapM_eq_Inr:
  "py_mapM f xs = Inr ys \<Longrightarrow> x \<in> set xs \<Longrightarrow> \<exists>y \<in> set ys. f x = Inr y"
  by (induction xs arbitrary: ys) (auto split: sum.splits)

section \<open>Type mapping\<close>

lemma unknown_type_is_varchar:
  "map_of type_map (base_type t) = None \<Longrightarrow> map_parameterized type_map t = ''VARCHAR''"
  by (simp add: map_parameterized_def)

lemma unknown_hudi_type_is_varchar:
  "map_of HUDI_TYPE_MAP (base_type (py_str (unwrap_union t))) = None \<Longrightarrow> map_hudi_type t = ''VARCHAR''"
  by (simp add: map_hudi_type_def)

lemma iceberg_listed_types:
  "map (\<lambda>t. map_iceberg_type (JStr t))
     [''boolean'', ''int'', ''long'', ''float'', ''double'', ''decimal(10,2)'', ''date'', ''time'',
      ''timestamp'', ''timestamptz'', ''string'', ''uuid'', ''fixed'', ''binary'']
   = map Inr
     [''BOOLEAN'', ''INTEGER'', ''BIGINT'', ''FLOAT'', ''DOUBLE'', ''DECIMAL(10,2)'', ''DATE'', ''TIME'',
      ''TIMESTAMP'', ''TIMESTAMP WITH TIME ZONE'', ''VARCHAR'', ''UUID'', ''BINARY'', ''BINARY'']"
  by code_simp

lemma delta_listed_types:
  "map (\<lambda>t. map_delta_type (JStr t))
     [''boolean'', ''byte'', ''short'', ''integer'', ''long'', ''float'', ''double'', ''decimal'',
      ''string'', ''binary'', ''date'', ''timestamp'']
   = map Inr
     [''BOOLEAN'', ''TINYINT'', ''SMALLINT'', ''INTEGER'', ''BIGINT'', ''FLOAT'', ''DOUBLE'', ''DECIMAL'',
      ''VARCHAR'', ''BINARY'', ''DATE'', ''TIMESTAMP'']"
  by code_simp

lemma hudi_listed_types_but_bytes:
  "map (\<lambda>t. map_hudi_type (JStr t))
     [''boolean'', ''int'', ''long'', ''float'', ''double'', ''string'', ''date'', ''timestamp'']
   = [''BOOLEAN'', ''INTEGER'', ''BIGINT'', ''FLOAT'', ''DOUBLE'', ''VARCHAR'', ''DATE'', ''TIMESTAMP'']"
  by code_simp

text \<open>
  C5. Every listed Hudi type is to map to its target, \<open>bytes\<close> to \<open>BINARY\<close>. The table
  \<open>HUDI_TYPE_MAP\<close> has the key \<open>binary\<close>, which is not an Avro type name, and no key
  \<open>bytes\<close>: an Avro \<open>bytes\<close> column, nullable or not, comes out as \<open>VARCHAR\<close>.
\<close>

theorem hudi_bytes_is_varchar:
  "map_hudi_type (JStr ''bytes'') = ''VARCHAR''
   \<and> map_hudi_type (JList [JStr ''null'', JStr ''bytes'']) = ''VARCHAR''
   \<and> map_hudi_type (JStr ''binary'') = ''BINARY''"
  by code_simp

section \<open>The normalizer and the clock\<close>

lemma normalize_iceberg_clock:
  "normalize_iceberg t2 raw = map_sum id (\<lambda>m. m\<lparr>nm_updated_at := Some t2\<rparr>) (normalize_iceberg t1 raw)"
proof (cases raw)
  case (JDict d)
  show ?thesis
    unfolding JDict normalize_iceberg.simps Let_def
    apply (cases "extract_table_name_from_path (dget d ''location'' (JStr []))"; simp)
    apply (cases "normalize_iceberg_columns (dget d ''schema'' (JList []))"; simp)
    apply (cases "extract_iceberg_partition_columns (dget d ''partition_spec'' (JList []))
                    (dget d ''schema'' (JList []))"; simp)
    apply (cases "py_len (dget d ''snapshots'' (JList []))"; simp)
    apply (auto simp: set_property_def py_bind_def split: sum.splits)
    done
qed simp_all

lemma normalize_delta_clock:
  "normalize_delta t2 raw = map_sum id (\<lambda>m. m\<lparr>nm_updated_at := Some t2\<rparr>) (normalize_delta t1 raw)"
proof (cases raw)
  case (JDict d)
  show ?thesis
    unfolding JDict normalize_delta.simps Let_def
    by (auto simp: set_property_def py_bind_def split: sum.splits)
qed simp_all

lemma normalize_hudi_clock:
  "normalize_hudi t2 raw = map_sum id (\<lambda>m. m\<lparr>nm_updated_at := Some t2\<rparr>) (normalize_hudi t1 raw)"
proof (cases raw)
  case (JDict d)
  show ?thesis
    unfolding JDict normalize_hudi.simps Let_def
    by (auto simp: set_property_def py_bind_def split: sum.splits)
qed simp_all

text \<open>
  C7, as amended. The result of \<open>normalize\<close> is a function of the raw record, the format
  and the reading of the clock: a call at the time \<open>t2\<close> fails exactly as a call at the
  time \<open>t1\<close> does, or returns the same \<open>TableMetadata\<close> with \<open>updated_at\<close> set to \<open>t2\<close>.
\<close>

theorem normalize_deterministic_up_to_updated_at:
  "normalize t2 raw table_format
     = map_sum id (\<lambda>m. m\<lparr>nm_updated_at := Some t2\<rparr>) (normalize t1 raw table_format)"
  unfolding normalize_def wrap_exception_def
  using normalize_iceberg_clock [of t2 raw t1] normalize_delta_clock [of t2 raw t1]
    normalize_hudi_clock [of t2 raw t1]
  by (auto split: sum.splits)

text \<open>
  C7 as stated fails: two calls on the same raw record and format, made at different
  times, return values that differ.
\<close>

theorem normalize_depends_on_clock_counterexample:
  "normalize 1 (JDict orders_raw) ''ICEBERG'' \<noteq> normalize 2 (JDict orders_raw) ''ICEBERG''"
  by code_simp

section \<open>Partition columns\<close>

lemma map_of_id_map_update [simp]: "map_of (id_map_update k v m) = (map_of m)(k \<mapsto> v)"
  by (induction m) (auto simp: fun_eq_iff)

lemma field_id_to_name_lookup:
  "field_id_to_name m0 fs = Inr m \<Longrightarrow> map_of m k = Some v \<Longrightarrow>
     map_of m0 k = Some v \<or>
     (\<exists>d. JDict d \<in> set fs \<and> dict_key (dget d ''id'' JNull) = k \<and> v = dget d ''name'' JNull)"
proof (induction m0 fs rule: field_id_to_name.induct)
  case (2 m field rest)
  then show ?case
    by (fastforce simp: Let_def split: if_splits)
qed simp_all

lemma field_id_to_name_absent:
  "field_id_to_name m0 fs = Inr m \<Longrightarrow> map_of m0 k = None \<Longrightarrow>
   \<forall>d. JDict d \<in> set fs \<longrightarrow> dict_key (dget d ''id'' JNull) \<noteq> k \<Longrightarrow> map_of m k = None"
proof (induction m0 fs rule: field_id_to_name.induct)
  case (2 m field rest)
  then show ?case
    by (auto simp: Let_def split: if_splits)
qed simp_all

lemma partition_columns_lookup:
  "partition_columns m spec = Inr ps \<Longrightarrow> p \<in> set ps \<Longrightarrow> \<exists>k. map_of m k = Some p"
proof (induction m spec arbitrary: ps rule: partition_columns.induct)
  case (2 m pf rest)
  then show ?case
    by (auto simp: Let_def py_bind_eq_Inr split: if_splits option.splits)
qed simp_all

lemma partition_columns_skip:
  assumes "map_of m (dict_key source_id) = None" "hashable source_id"
    and "py_or (dget pf ''source-id'' JNull) (dget pf ''sourceId'' JNull) = source_id"
  shows "partition_columns m (before @ JDict pf # after) = partition_columns m (before @ after)"
proof (induction before)
  case Nil
  from assms show ?case by (simp add: Let_def)
next
  case (Cons x xs)
  show ?case by (cases x) (simp_all add: Let_def Cons.IH split: option.splits)
qed

lemma iceberg_column_name:
  "iceberg_column (JDict d) = Inr c \<Longrightarrow> nc_name c = dget d ''name'' (JStr [])"
  by (auto simp: py_bind_eq_Inr)

lemma set_property_fields:
  "set_property k v m = Inr m' \<Longrightarrow> nm_partitions m' = nm_partitions m \<and> nm_columns m' = nm_columns m"
  by (auto simp: set_property_def py_bind_eq_Inr)

lemma normalize_iceberg_partitions:
  assumes "normalize_iceberg now (JDict raw) = Inr m"
  shows "\<exists>fs cols ps. py_iter (dget raw ''schema'' (JList [])) = Inr fs
           \<and> py_mapM iceberg_column fs = Inr cols
           \<and> extract_iceberg_partition_columns (dget raw ''partition_spec'' (JList []))
                (dget raw ''schema'' (JList [])) = Inr ps
           \<and> nm_columns m = cols \<and> nm_partitions m = JList ps"
  using assms
  by (auto simp: Let_def py_bind_eq_Inr normalize_iceberg_columns_def
      dest!: set_property_fields split: if_splits)

lemma delta_partitions_verbatim:
  assumes "normalize now (JDict raw) ''DELTA'' = Inr m"
  shows "nm_partitions m = dget raw ''partition_columns'' (JList [])"
proof -
  from assms have "normalize_delta now (JDict raw) = Inr m"
    by (auto simp: normalize_def wrap_exception_def split: sum.splits)
  then show ?thesis
    by (auto simp: Let_def py_bind_def set_property_def split: sum.splits if_splits)
qed

lemma hudi_partitions_verbatim:
  assumes "normalize now (JDict raw) ''HUDI'' = Inr m"
  shows "nm_partitions m = dget raw ''partition_fields'' (JList [])"
proof -
  from assms have "normalize_hudi now (JDict raw) = Inr m"
    by (auto simp: normalize_def wrap_exception_def split: sum.splits)
  then show ?thesis
    by (auto simp: Let_def py_bind_def set_property_def split: sum.splits if_splits)
qed

text \<open>
  C2, as amended. The normalizer has no check of the partition names and no
  unknown-partition-column error. For an Iceberg record whose schema fields all have a
  \<open>name\<close> entry, the names it puts in \<open>partitions\<close> are names of the columns it puts in
  \<open>columns\<close>, because it takes both from the same schema fields. For Delta and Hudi it
  copies the partition list of the raw record as it is.
\<close>

theorem iceberg_partitions_subset_of_columns:
  assumes "normalize now (JDict raw) ''ICEBERG'' = Inr m"
    and "\<forall>fs d. py_iter (dget raw ''schema'' (JList [])) = Inr fs \<longrightarrow> JDict d \<in> set fs
           \<longrightarrow> has_key d ''name''"
  shows "\<exists>ps. nm_partitions m = JList ps \<and> set ps \<subseteq> nc_name ` set (nm_columns m)"
proof -
  from assms(1) have "normalize_iceberg now (JDict raw) = Inr m"
    by (auto simp: normalize_def wrap_exception_def split: sum.splits)
  from normalize_iceberg_partitions [OF this] obtain fs cols ps where
    fs: "py_iter (dget raw ''schema'' (JList [])) = Inr fs"
    and cols: "py_mapM iceberg_column fs = Inr cols"
    and ps: "extract_iceberg_partition_columns (dget raw ''partition_spec'' (JList []))
                (dget raw ''schema'' (JList [])) = Inr ps"
    and m: "nm_columns m = cols" "nm_partitions m = JList ps"
    by blast
  from ps fs obtain idm spec where idm: "field_id_to_name [] fs = Inr idm"
    and spec: "partition_columns idm spec = Inr ps"
    by (auto simp: extract_iceberg_partition_columns_def py_bind_eq_Inr)
  have "p \<in> nc_name ` set cols" if "p \<in> set ps" for p
  proof -
    from partition_columns_lookup [OF spec that] obtain k where "map_of idm k = Some p" ..
    from field_id_to_name_lookup [OF idm this] obtain d where
      d: "JDict d \<in> set fs" and p: "p = dget d ''name'' JNull"
      by auto
    from py_mapM_eq_Inr [OF cols d] obtain c where
      c: "c \<in> set cols" "iceberg_column (JDict d) = Inr c"
      by blast
    from assms(2) fs d have "has_key d ''name''" by blast
    with p iceberg_column_name [OF c(2)] have "nc_name c = p"
      by (simp add: dget_has_key [of d "''name''" JNull "JStr []"])
    with c(1) show ?thesis by blast
  qed
  with m show ?thesis by blast
qed

theorem iceberg_partitions_subset_of_columns_witness:
  "normalize 5 (JDict orders_raw) ''ICEBERG'' = Inr (orders_normalized 5)
   \<and> (\<exists>ps. nm_partitions (orders_normalized 5) = JList ps
         \<and> set ps \<subseteq> nc_name ` set (nm_columns (orders_normalized 5)))"
proof -
  have run: "normalize 5 (JDict orders_raw) ''ICEBERG'' = Inr (orders_normalized 5)"
    by code_simp
  have named: "\<forall>fs d. py_iter (dget orders_raw ''schema'' (JList [])) = Inr fs
      \<longrightarrow> JDict d \<in> set fs \<longrightarrow> has_key d ''name''"
    by (auto simp: orders_raw_def dget_def has_key_def)
  from iceberg_partitions_subset_of_columns [OF run named] run show ?thesis by simp
qed

text \<open>
  C2 as stated fails: a Delta record whose partition column \<open>ghost\<close> is no column of its
  schema is normalized without an error, and the result has the partition \<open>ghost\<close> and the
  single column \<open>id\<close>.
\<close>

theorem delta_partition_outside_columns_counterexample:
  "normalize 5 (JDict events_raw) ''DELTA'' = Inr (events_normalized 5)
   \<and> nm_partitions (events_normalized 5) = JList [JStr ''ghost'']
   \<and> map nc_name (nm_columns (events_normalized 5)) = [JStr ''id'']"
  by code_simp

text \<open>
  C6, as amended. A partition-spec field whose source id matches no field id of the
  schema is skipped: the normalizer returns what it returns for the partition spec
  without that field, and raises no error for it.
\<close>

theorem dangling_partition_field_is_skipped:
  assumes "hashable source_id"
    and "py_or (dget pf ''source-id'' JNull) (dget pf ''sourceId'' JNull) = source_id"
    and "\<forall>fs d. py_iter (dget raw ''schema'' (JList [])) = Inr fs \<longrightarrow> JDict d \<in> set fs
           \<longrightarrow> dict_key (dget d ''id'' JNull) \<noteq> dict_key source_id"
  shows "normalize now (JDict (dict_update ''partition_spec''
                                 (JList (before @ JDict pf # after)) raw)) ''ICEBERG''
       = normalize now (JDict (dict_update ''partition_spec''
                                 (JList (before @ after)) raw)) ''ICEBERG''"
proof -
  let ?schema = "dget raw ''schema'' (JList [])"
  have "extract_iceberg_partition_columns (JList (before @ JDict pf # after)) ?schema
      = extract_iceberg_partition_columns (JList (before @ after)) ?schema"
  proof (cases "py_iter ?schema")
    case (Inr fs)
    show ?thesis
    proof (cases "field_id_to_name [] fs")
      case (Inr m)
      from assms(3) \<open>py_iter ?schema = Inr fs\<close>
      have "\<forall>d. JDict d \<in> set fs \<longrightarrow> dict_key (dget d ''id'' JNull) \<noteq> dict_key source_id"
        by blast
      from field_id_to_name_absent [OF Inr _ this] have "map_of m (dict_key source_id) = None"
        by simp
      from partition_columns_skip [OF this assms(1,2)] Inr \<open>py_iter ?schema = Inr fs\<close>
      show ?thesis
        by (simp add: extract_iceberg_partition_columns_def)
    qed (simp add: extract_iceberg_partition_columns_def Inr)
  qed (simp add: extract_iceberg_partition_columns_def)
  then show ?thesis
    by (simp add: normalize_def Let_def cong: if_cong)
qed

theorem dangling_partition_field_is_skipped_witness:
  "normalize 5 (JDict (dict_update ''partition_spec''
      (JList ([JDict region_partition_field] @ JDict ghost_partition_field # [])) orders_raw)) ''ICEBERG''
   = normalize 5 (JDict (dict_update ''partition_spec''
      (JList ([JDict region_partition_field] @ [])) orders_raw)) ''ICEBERG''"
proof -
  have h1: "hashable (JInt 7)" by simp
  have h2: "py_or (dget ghost_partition_field ''source-id'' JNull)
              (dget ghost_partition_field ''sourceId'' JNull) = JInt 7"
    by (simp add: ghost_partition_field_def dget_def py_or_def)
  have h3: "\<forall>fs d. py_iter (dget orders_raw ''schema'' (JList [])) = Inr fs \<longrightarrow> JDict d \<in> set fs
           \<longrightarrow> dict_key (dget d ''id'' JNull) \<noteq> dict_key (JInt 7)"
    by (auto simp: orders_raw_def dget_def)
  from dangling_partition_field_is_skipped [OF h1 h2 h3] show ?thesis .
qed

text \<open>
  C6 as stated fails: the metadata file of \<open>orders\<close> has a partition-spec field with the
  source id 7 and no schema field with that id. The reader returns the raw record
  \<open>orders_raw\<close> for it, which is normalized without an error, and the result lists the
  partition \<open>region\<close> only.
\<close>

theorem dangling_partition_field_counterexample:
  "iceberg_raw_metadata ''s3://lake/warehouse/orders''
      ''warehouse/orders/metadata/v1.metadata.json'' orders_metadata = Inr (JDict orders_raw)
   \<and> normalize 5 (JDict orders_raw) ''ICEBERG'' = Inr (orders_normalized 5)
   \<and> nm_partitions (orders_normalized 5) = JList [JStr ''region'']"
  by code_simp

section \<open>Format detection\<close>

lemma check_directory_exists_True:
  "check_directory_exists s3 bucket prefix directory = Inr True \<longleftrightarrow>
     (\<exists>objects. s3 bucket = Response objects
        \<and> (\<exists>k \<in> set (map fst objects). startswith k (prefix @ directory)))"
  by (cases "s3 bucket")
     (auto simp: check_directory_exists_def list_objects_v2_def filter_empty_conv)

text \<open>
  C3, as amended. The detector answers \<open>ICEBERG\<close> exactly when the path starts with
  \<open>s3://\<close> and the bucket lists at least one key that starts with the table prefix
  followed by \<open>metadata/\<close>. It does not look at the names of the keys below that prefix.
\<close>

theorem detect_iceberg_iff:
  "detect_format s3 s3_path = Inr ICEBERG \<longleftrightarrow>
     startswith s3_path ''s3://'' \<and>
     (\<exists>objects. s3 (fst (bucket_and_prefix s3_path)) = Response objects
        \<and> (\<exists>k \<in> set (map fst objects).
              startswith k (snd (bucket_and_prefix s3_path) @ ''metadata/'')))"
proof (cases "startswith s3_path ''s3://''")
  case True
  obtain bucket prefix where bp: "bucket_and_prefix s3_path = (bucket, prefix)"
    by (cases "bucket_and_prefix s3_path")
  show ?thesis
  proof (cases "check_directory_exists s3 bucket prefix ''metadata/''")
    case (Inl e)
    with True bp check_directory_exists_True [of s3 bucket prefix "''metadata/''"]
    show ?thesis by (simp add: detect_format_def parse_s3_path_def)
  next
    case (Inr b)
    with True bp check_directory_exists_True [of s3 bucket prefix "''metadata/''"]
    show ?thesis
      by (cases b) (auto simp: detect_format_def parse_s3_path_def py_bind_def split: sum.splits)
  qed
next
  case False
  then show ?thesis by (simp add: detect_format_def parse_s3_path_def)
qed

theorem detect_iceberg_iff_witness:
  "detect_format lake ''s3://lake/warehouse/orders'' = Inr ICEBERG"
proof -
  have bp: "bucket_and_prefix ''s3://lake/warehouse/orders'' = (''lake'', ''warehouse/orders/'')"
    by code_simp
  have sw: "startswith ''s3://lake/warehouse/orders'' ''s3://''"
    by code_simp
  have k: "startswith ''warehouse/orders/metadata/v1.metadata.json'' (''warehouse/orders/'' @ ''metadata/'')"
    by code_simp
  from k sw show ?thesis
    unfolding detect_iceberg_iff [of lake "''s3://lake/warehouse/orders''"] bp
    by (simp add: lake_def)
qed

text \<open>
  C3 as stated fails: below \<open>warehouse/docs/metadata/\<close> the bucket has the single key
  \<open>README.txt\<close>, which neither ends with \<open>.metadata.json\<close> nor is \<open>version-hint.text\<close>, and
  the detector answers \<open>ICEBERG\<close>.
\<close>

theorem iceberg_without_metadata_file_counterexample:
  "detect_format lake ''s3://lake/warehouse/docs'' = Inr ICEBERG
   \<and> list_objects_v2 lake ''lake'' ''warehouse/docs/metadata/'' 1000
       = Response [''warehouse/docs/metadata/README.txt'']
   \<and> \<not> endswith ''warehouse/docs/metadata/README.txt'' ''.metadata.json''
   \<and> \<not> endswith ''warehouse/docs/metadata/README.txt'' ''version-hint.text''"
  by code_simp

section \<open>The metadata store\<close>

lemma insert_column_row_Inr:
  "insert_column_row c db = Inr db' \<longleftrightarrow>
     col_table_id c \<in> set (map row_id (table_rows db)) \<and>
     (col_table_id c, col_column_name c) \<notin> column_keys db \<and>
     db' = db\<lparr> column_rows := column_rows db
                   @ [c\<lparr>col_id := next_id (column_sequence db) (map col_id (column_rows db))\<rparr>],
                 column_sequence := next_id (column_sequence db) (map col_id (column_rows db)) \<rparr>"
  by (auto simp: insert_column_row_def column_keys_def Let_def)

lemma insert_columns_Inr_fresh:
  "insert_columns tid idx cs db = Inr db' \<Longrightarrow> c \<in> set cs \<Longrightarrow> (tid, name c) \<notin> column_keys db"
proof (induction cs arbitrary: db idx)
  case (Cons x xs)
  from Cons.prems(1) obtain db1 where
    db1: "insert_column_row \<lparr> col_id = 0, col_table_id = tid, col_column_name = name x,
                  col_data_type = data_type x, col_nullable = nullable x,
                  col_comment = comment x, col_column_order = idx \<rparr> db = Inr db1"
    and rest: "insert_columns tid (Suc idx) xs db1 = Inr db'"
    by (auto simp: py_bind_eq_Inr)
  from db1 have mono: "column_keys db \<subseteq> column_keys db1"
    by (auto simp: insert_column_row_Inr column_keys_def)
  show ?case
  proof (cases "c = x")
    case True
    with db1 show ?thesis by (simp add: insert_column_row_Inr)
  next
    case False
    with Cons.prems(2) have "c \<in> set xs" by simp
    from Cons.IH [OF rest this] mono show ?thesis by blast
  qed
qed simp

lemma insert_columns_Inr_distinct:
  "insert_columns tid idx cs db = Inr db' \<Longrightarrow> distinct (map name cs)"
proof (induction cs arbitrary: db idx)
  case (Cons c cs)
  from Cons.prems obtain db1 where
    db1: "insert_column_row \<lparr> col_id = 0, col_table_id = tid, col_column_name = name c,
                  col_data_type = data_type c, col_nullable = nullable c,
                  col_comment = comment c, col_column_order = idx \<rparr> db = Inr db1"
    and rest: "insert_columns tid (Suc idx) cs db1 = Inr db'"
    by (auto simp: py_bind_eq_Inr)
  from db1 have "(tid, name c) \<in> column_keys db1"
    by (auto simp: insert_column_row_Inr column_keys_def)
  with insert_columns_Inr_fresh [OF rest] have "name c \<notin> set (map name cs)"
    by auto
  with Cons.IH [OF rest] show ?case by simp
qed simp

lemma insert_columns_duplicate:
  "\<not> distinct (map name cs) \<Longrightarrow> insert_columns tid idx cs db = Inl IntegrityError"
proof -
  assume d: "\<not> distinct (map name cs)"
  show ?thesis
  proof (cases "insert_columns tid idx cs db")
    case (Inl e)
    then show ?thesis by (cases e) simp
  next
    case (Inr db')
    from insert_columns_Inr_distinct [OF Inr] d show ?thesis by simp
  qed
qed














lemma get_table_metadata_None:
  "get_table_metadata db tname = None \<longleftrightarrow>
     find (\<lambda>r. row_table_name r = tname) (table_rows db) = None"
  by (auto simp: get_table_metadata_def Let_def split: option.splits)

lemma save_duplicate_columns:
  assumes "\<not> distinct (map name (columns m))"
  shows "save_statements now1 now2 m db = Inl IntegrityError"
proof (cases "save_statements now1 now2 m db")
  case (Inl e)
  then show ?thesis by (cases e) simp
next
  case (Inr r)
  then obtain tid db0 db' where "insert_columns tid 0 (columns m) db0 = Inr db'"
    by (auto simp: save_statements_def update_table_metadata_def insert_table_metadata_def
        Let_def py_bind_eq_Inr split: option.splits prod.splits)
  from insert_columns_Inr_distinct [OF this] assms show ?thesis by simp
qed

lemma delete_then_get:
  "get_table_metadata (snd (delete_table_metadata db tname)) tname = None"
  by (simp add: get_table_metadata_None delete_table_metadata_def Let_def find_None_iff)

lemma delete_cascades:
  "r \<in> set (table_rows db) \<Longrightarrow> row_table_name r = tname \<Longrightarrow>
   c \<in> set (column_rows (snd (delete_table_metadata db tname))) \<Longrightarrow> col_table_id c \<noteq> row_id r"
  by (auto simp: delete_table_metadata_def Let_def)


lemma foreign_keys_ok_delete:
  assumes "foreign_keys_ok db"
  shows "foreign_keys_ok (snd (delete_table_metadata db tname))"
  using assms
  by (fastforce simp: foreign_keys_ok_def delete_table_metadata_def Let_def list_all_iff)

lemma foreign_keys_ok_save:
  assumes "foreign_keys_ok db"
  shows "foreign_keys_ok (snd (save_table_metadata now1 now2 m db))"
proof (cases "distinct (map name (columns m))")
  case False
  from save_duplicate_columns [OF this] assms show ?thesis
    by (simp add: save_table_metadata_def)
next
  case True
  have ins: "insert_columns tid idx cs d = Inr d' \<Longrightarrow> foreign_keys_ok d \<Longrightarrow> foreign_keys_ok d'"
    for tid idx cs d d'
  proof (induction cs arbitrary: idx d)
    case (Cons c cs)
    from Cons.prems(1) obtain d1 where
      d1: "insert_column_row \<lparr> col_id = 0, col_table_id = tid, col_column_name = name c,
                  col_data_type = data_type c, col_nullable = nullable c,
                  col_comment = comment c, col_column_order = idx \<rparr> d = Inr d1"
      and rest: "insert_columns tid (Suc idx) cs d1 = Inr d'"
      by (auto simp: py_bind_eq_Inr)
    from d1 Cons.prems(2) have "foreign_keys_ok d1"
      by (auto simp: insert_column_row_Inr foreign_keys_ok_def list_all_iff)
    from Cons.IH [OF rest this] show ?case .
  qed simp
  show ?thesis
  proof (cases "save_statements now1 now2 m db")
    case (Inl e)
    with assms show ?thesis by (simp add: save_table_metadata_def)
  next
    case (Inr r)
    obtain tid db' where r: "r = (tid, db')" by (cases r)
    from Inr r obtain d where "insert_columns tid 0 (columns m) d = Inr db'" "foreign_keys_ok d"
      using assms
      by (fastforce simp: save_statements_def update_table_metadata_def insert_table_metadata_def
          insert_table_row_def Let_def py_bind_eq_Inr foreign_keys_ok_def list_all_iff
          split: option.splits if_splits)
    from ins [OF this] Inr r show ?thesis by (simp add: save_table_metadata_def)
  qed
qed







text \<open>
  C9. After \<open>delete_table_metadata\<close> of a name, \<open>get_table_metadata\<close> of that name is
  \<open>None\<close>, and no column row refers to the id of a table row that had the name. The call
  returns \<open>True\<close> exactly when the name was stored.
\<close>

theorem delete_cascade:
  "get_table_metadata (snd (delete_table_metadata db tname)) tname = None
   \<and> (\<forall>r \<in> set (table_rows db). row_table_name r = tname \<longrightarrow>
        (\<forall>c \<in> set (column_rows (snd (delete_table_metadata db tname))).
           col_table_id c \<noteq> row_id r))
   \<and> fst (delete_table_metadata db tname) = (get_table_metadata db tname \<noteq> None)"
proof -
  have "fst (delete_table_metadata db tname) = (get_table_metadata db tname \<noteq> None)"
    by (auto simp: get_table_metadata_None delete_table_metadata_def Let_def find_None_iff
        filter_empty_conv)
  with delete_then_get [of db tname] delete_cascades [of _ db tname] show ?thesis
    by blast
qed

theorem delete_cascade_witness:
  "get_table_metadata orders_catalog ''orders'' \<noteq> None
   \<and> fst (delete_table_metadata orders_catalog ''orders'')
   \<and> get_table_metadata (snd (delete_table_metadata orders_catalog ''orders'')) ''orders'' = None
   \<and> filter (\<lambda>c. col_table_id c = 1)
         (column_rows (snd (delete_table_metadata orders_catalog ''orders''))) = []"
proof -
  have stored: "get_table_metadata orders_catalog ''orders'' \<noteq> None"
    by code_simp
  have row: "\<exists>r \<in> set (table_rows orders_catalog). row_table_name r = ''orders'' \<and> row_id r = 1"
    by (simp add: orders_catalog_def)
  from delete_cascade [of orders_catalog "''orders''"] stored row show ?thesis
    by (auto simp: filter_empty_conv)
qed



section \<open>The Delta reader\<close>






end
